theory Spec2Isabelle
  imports Main "HOL-Library.Sublist"
begin

section \<open>The versioned store of \<^verbatim>\<open>manager/db.py\<close>\<close>

text \<open>
  The class \<^verbatim>\<open>DBAdapter\<close> keeps an audit table \<^verbatim>\<open>ingestion_history\<close> and one
  SCD2 table per entity in a SQLite file. The embedding has two layers.

  \<^item> The text layer: the statement texts that the methods build with f-strings, character
    by character as the source writes them.
  \<^item> The relational layer: the tables as values, and what SQLite does with each statement
    the methods send.

  What stands outside the code is a parameter of the model: \<open>ok\<close> says whether SQLite
  prepares a statement text without a syntax error, \<open>H\<close> is the SHA-256 digest (as a
  hex string) of the UTF-8 bytes of a text, \<open>now\<close> is what \<^verbatim>\<open>_utcnow_iso()\<close> returns,
  \<open>dumps\<close> is \<^verbatim>\<open>json.dumps\<close>.

  Scope of the relational layer: field values are text or \<^verbatim>\<open>None\<close>; names are
  compared as written (SQLite folds the case of identifiers); a declared field named
  like one of the five built-in columns is treated as a column the table does not
  have; an accepted \<^verbatim>\<open>CREATE TABLE\<close> creates the columns the arguments name.
\<close>

subsection \<open>Exceptions\<close>

datatype error =
    KeyError string
  | OperationalError
  | IntegrityError
  | OverflowError


subsection \<open>Python records\<close>

text \<open>A record is a dict in insertion order: an association list with distinct keys.\<close>

type_synonym pyrecord = "(string \<times> string option) list"

definition py_keys :: "pyrecord \<Rightarrow> string list" where
  "py_keys r = map fst r"

definition py_get :: "pyrecord \<Rightarrow> string \<Rightarrow> string option" where
  \<comment> \<open>\<^verbatim>\<open>record.get(field)\<close>: \<^verbatim>\<open>None\<close> for a missing field and for a stored \<^verbatim>\<open>None\<close>.\<close>
  "py_get r f = (case map_of r f of None \<Rightarrow> None | Some v \<Rightarrow> v)"

definition py_index :: "pyrecord \<Rightarrow> string \<Rightarrow> error + string option" where
  \<comment> \<open>\<^verbatim>\<open>row[field]\<close>: raises \<^verbatim>\<open>KeyError\<close> for a missing field.\<close>
  "py_index r f = (case map_of r f of None \<Rightarrow> Inl (KeyError f) | Some v \<Rightarrow> Inr v)"

subsection \<open>The text layer\<close>

fun str_join :: "string \<Rightarrow> string list \<Rightarrow> string" where
  "str_join sep [] = []"
| "str_join sep [x] = x"
| "str_join sep (x # y # ys) = x @ sep @ str_join sep (y # ys)"

definition nl :: string where
  "nl = [CHR 0x0A]"

definition sp :: "nat \<Rightarrow> string" where
  "sp n = replicate n CHR '' ''"

definition create_table_sql :: "string \<Rightarrow> string list \<Rightarrow> string list \<Rightarrow> string" where
  "create_table_sql table key_fields attribute_fields =
     (let key_cols = str_join '', '' (map (\<lambda>name. name @ '' TEXT NOT NULL'') key_fields);
          attr_cols = str_join '', '' (map (\<lambda>name. name @ '' TEXT'') attribute_fields)
      in nl @ sp 16 @ ''CREATE TABLE IF NOT EXISTS '' @ table @ '' ('' @ nl
         @ sp 20 @ ''id INTEGER PRIMARY KEY AUTOINCREMENT,'' @ nl
         @ sp 20 @ key_cols @ '','' @ nl
         @ sp 20 @ attr_cols @ '','' @ nl
         @ sp 20 @ ''valid_from TEXT NOT NULL,'' @ nl
         @ sp 20 @ ''valid_to TEXT NOT NULL,'' @ nl
         @ sp 20 @ ''is_current INTEGER NOT NULL,'' @ nl
         @ sp 20 @ ''row_hash TEXT NOT NULL'' @ nl
         @ sp 16 @ '');'' @ nl
         @ sp 16)"

definition create_key_index_sql :: "string \<Rightarrow> string list \<Rightarrow> string" where
  "create_key_index_sql table key_fields =
     (let idx_cols = str_join ''_'' key_fields
      in ''CREATE INDEX IF NOT EXISTS idx_'' @ table @ ''_'' @ idx_cols @ '' ON '' @ table
         @ '' ('' @ str_join '', '' key_fields @ '');'')"

definition create_current_index_sql :: "string \<Rightarrow> string" where
  "create_current_index_sql table =
     ''CREATE INDEX IF NOT EXISTS idx_'' @ table @ ''_current ON '' @ table @ ''(is_current);''"

definition select_current_sql :: "string \<Rightarrow> string list \<Rightarrow> string" where
  "select_current_sql table key_fields =
     (let placeholders = str_join '' AND '' (map (\<lambda>field. field @ ''=?'') key_fields)
      in nl @ sp 20 @ ''SELECT id, row_hash FROM '' @ table @ nl
         @ sp 20 @ ''WHERE '' @ placeholders @ '' AND is_current=1'' @ nl
         @ sp 20 @ ''ORDER BY id DESC LIMIT 1;'' @ nl
         @ sp 20)"

definition update_close_sql :: "string \<Rightarrow> string" where
  "update_close_sql table =
     nl @ sp 24 @ ''UPDATE '' @ table @ nl
     @ sp 24 @ ''SET valid_to=?, is_current=0'' @ nl
     @ sp 24 @ ''WHERE id=?;'' @ nl
     @ sp 24"

definition insert_sql :: "string \<Rightarrow> string list \<Rightarrow> string" where
  "insert_sql table columns =
     nl @ sp 20 @ ''INSERT INTO '' @ table @ '' ('' @ str_join '', '' columns
       @ '', valid_from, valid_to, is_current, row_hash)'' @ nl
     @ sp 20 @ ''VALUES ('' @ str_join '', '' (map (\<lambda>_. ''?'') columns) @ '', ?, ?, 1, ?);'' @ nl
     @ sp 20"



subsection \<open>Tables\<close>

record scd2_row =
  rid :: nat
  cells :: "(string \<times> string option) list"
  valid_from :: string
  valid_to :: string
  is_current :: int
  row_hash :: string

record scd2_table =
  tcolumns :: "string list"
  tnotnull :: "string list"
  trows :: "scd2_row list"
  tseq :: nat

record history_event =
  hid :: nat
  job_name :: string
  event_type :: string
  status :: string
  started_at :: string
  ended_at :: "string option"
  duration_ms :: "int option"
  row_count :: "int option"
  details :: "string option"

record db =
  entity :: "string \<rightharpoonup> scd2_table"
  history :: "history_event list"
  hseq :: nat
  indexes :: "string list"

definition cell :: "scd2_row \<Rightarrow> string \<Rightarrow> string option" where
  \<comment> \<open>the value of a column in a row; \<open>None\<close> is SQL NULL\<close>
  "cell r c = (case map_of (cells r) c of None \<Rightarrow> None | Some v \<Rightarrow> v)"

definition next_id :: "nat \<Rightarrow> nat list \<Rightarrow> nat" where
  \<comment> \<open>\<^verbatim>\<open>AUTOINCREMENT\<close>: one more than the largest id the table has ever held\<close>
  "next_id seq ids = Suc (fold max ids seq)"

subsection \<open>The audit log\<close>

datatype 'm details_arg = Text string | Mapping 'm

definition log_history ::
  "('m \<Rightarrow> string) \<Rightarrow> string \<Rightarrow> db \<Rightarrow> string \<Rightarrow> string \<Rightarrow> string \<Rightarrow> string option \<Rightarrow> string option
     \<Rightarrow> int option \<Rightarrow> int option \<Rightarrow> 'm details_arg option \<Rightarrow> nat \<times> db" where
  "log_history dumps now d jn et st started ended dur rc det =
     (let payload = (case det of None \<Rightarrow> None
                      | Some (Text s) \<Rightarrow> Some s
                      | Some (Mapping m) \<Rightarrow> Some (dumps m));
          i = next_id (hseq d) (map hid (history d));
          ev = \<lparr> hid = i, job_name = jn, event_type = et, status = st,
                 started_at = (case started of None \<Rightarrow> now
                                | Some s \<Rightarrow> if s = [] then now else s),
                 ended_at = ended, duration_ms = dur, row_count = rc, details = payload \<rparr>
      in (i, d\<lparr>history := history d @ [ev], hseq := i\<rparr>))"

fun insert_desc :: "history_event \<Rightarrow> history_event list \<Rightarrow> history_event list" where
  "insert_desc e [] = [e]"
| "insert_desc e (x # xs) = (if hid x \<le> hid e then e # x # xs else x # insert_desc e xs)"

definition order_by_id_desc :: "history_event list \<Rightarrow> history_event list" where
  "order_by_id_desc es = foldr insert_desc es []"


subsection \<open>Schema creation\<close>

definition new_table :: "string list \<Rightarrow> string list \<Rightarrow> scd2_table" where
  "new_table key_fields attribute_fields =
     \<lparr> tcolumns = key_fields @ attribute_fields, tnotnull = key_fields, trows = [], tseq = 0 \<rparr>"

definition builtin_columns :: "string list" where
  "builtin_columns = [''id'', ''valid_from'', ''valid_to'', ''is_current'', ''row_hash'']"

definition history_columns :: "string list" where
  "history_columns = [''id'', ''job_name'', ''event_type'', ''status'', ''started_at'',
     ''ended_at'', ''duration_ms'', ''row_count'', ''details'']"

definition exec_create_table ::
  "(string \<Rightarrow> bool) \<Rightarrow> db \<Rightarrow> string \<Rightarrow> string list \<Rightarrow> string list \<Rightarrow> error option \<times> db" where
  \<comment> \<open>\<^verbatim>\<open>CREATE TABLE IF NOT EXISTS\<close>. An empty column list leaves a bare comma in the
      text; an existing table (the audit table too) is left as it is; a repeated column
      name is refused when the table is created.\<close>
  "exec_create_table ok d table key_fields attribute_fields =
     (if key_fields = [] \<or> attribute_fields = []
         \<or> \<not> ok (create_table_sql table key_fields attribute_fields)
      then (Some OperationalError, d)
      else if table = ''ingestion_history'' \<or> entity d table \<noteq> None then (None, d)
      else if \<not> distinct (key_fields @ attribute_fields @ builtin_columns)
      then (Some OperationalError, d)
      else (None, d\<lparr>entity := (entity d)(table \<mapsto> new_table key_fields attribute_fields)\<rparr>))"

definition key_index_name :: "string \<Rightarrow> string list \<Rightarrow> string" where
  \<comment> \<open>\<^verbatim>\<open>idx_{table}_{idx_cols}\<close> with \<^verbatim>\<open>idx_cols = "_".join(key_fields)\<close>\<close>
  "key_index_name table key_fields = ''idx_'' @ table @ ''_'' @ str_join ''_'' key_fields"

definition current_index_name :: "string \<Rightarrow> string" where
  \<comment> \<open>\<^verbatim>\<open>idx_{table}_current\<close>\<close>
  "current_index_name table = ''idx_'' @ table @ ''_current''"

definition exec_create_key_index ::
  "(string \<Rightarrow> bool) \<Rightarrow> db \<Rightarrow> string \<Rightarrow> string list \<Rightarrow> error option \<times> db" where
  \<comment> \<open>\<^verbatim>\<open>CREATE INDEX IF NOT EXISTS idx_{table}_{idx_cols}\<close>: index names are global\<close>
  "exec_create_key_index ok d table key_fields =
     (let name = key_index_name table key_fields;
          columns = (if table = ''ingestion_history'' then Some history_columns
                     else map_option tcolumns (entity d table))
      in if \<not> ok (create_key_index_sql table key_fields) then (Some OperationalError, d)
         else if name \<in> set (indexes d) then (None, d)
         else (case columns of
                 None \<Rightarrow> (Some OperationalError, d)
               | Some cs \<Rightarrow>
                   if list_all (\<lambda>k. k \<in> set cs) key_fields
                   then (None, d\<lparr>indexes := indexes d @ [name]\<rparr>)
                   else (Some OperationalError, d)))"

definition exec_create_current_index ::
  "(string \<Rightarrow> bool) \<Rightarrow> db \<Rightarrow> string \<Rightarrow> error option \<times> db" where
  \<comment> \<open>\<^verbatim>\<open>CREATE INDEX IF NOT EXISTS idx_{table}_current\<close>; the audit table has no column
      \<^verbatim>\<open>is_current\<close>\<close>
  "exec_create_current_index ok d table =
     (let name = current_index_name table
      in if \<not> ok (create_current_index_sql table) then (Some OperationalError, d)
         else if name \<in> set (indexes d) then (None, d)
         else if table = ''ingestion_history'' \<or> entity d table = None
         then (Some OperationalError, d)
         else (None, d\<lparr>indexes := indexes d @ [name]\<rparr>))"

definition ensure_scd2_table ::
  "(string \<Rightarrow> bool) \<Rightarrow> db \<Rightarrow> string \<Rightarrow> string list \<Rightarrow> string list \<Rightarrow> error option \<times> db" where
  \<comment> \<open>Three statements in turn; none opens a transaction, so what an earlier one did
      stays when a later one raises.\<close>
  "ensure_scd2_table ok d table key_fields attribute_fields =
     (case exec_create_table ok d table key_fields attribute_fields of
        (Some e, d1) \<Rightarrow> (Some e, d1)
      | (None, d1) \<Rightarrow>
          (case exec_create_key_index ok d1 table key_fields of
             (Some e, d2) \<Rightarrow> (Some e, d2)
           | (None, d2) \<Rightarrow> exec_create_current_index ok d2 table))"

subsection \<open>Change detection\<close>

definition compute_hash :: "(string \<Rightarrow> string) \<Rightarrow> pyrecord \<Rightarrow> string list \<Rightarrow> string" where
  \<comment> \<open>\<^verbatim>\<open>_compute_hash\<close>: \<^verbatim>\<open>hasher.update\<close> appends to what is digested; \<open>H\<close> is the
      final \<^verbatim>\<open>hexdigest()\<close>\<close>
  "compute_hash H record fs =
     H (fold (\<lambda>field buf. buf @ (case py_get record field of None \<Rightarrow> [] | Some v \<Rightarrow> v))
          fs [])"

subsection \<open>The SCD2 upsert\<close>

definition sentinel :: string where
  "sentinel = ''9999-12-31T00:00:00+00:00''"

fun key_values_of :: "pyrecord \<Rightarrow> string list \<Rightarrow> error + string option list" where
  \<comment> \<open>\<^verbatim>\<open>[row[field] for field in key_fields]\<close>\<close>
  "key_values_of row [] = Inr []"
| "key_values_of row (f # fs) =
     (case py_index row f of
        Inl e \<Rightarrow> Inl e
      | Inr v \<Rightarrow> (case key_values_of row fs of Inl e \<Rightarrow> Inl e | Inr vs \<Rightarrow> Inr (v # vs)))"

definition sql_eq :: "string option \<Rightarrow> string option \<Rightarrow> bool" where
  \<comment> \<open>\<^verbatim>\<open>column = ?\<close> in a \<^verbatim>\<open>WHERE\<close> clause: never true when a side is NULL\<close>
  "sql_eq a b = (a \<noteq> None \<and> a = b)"

definition key_match :: "string list \<Rightarrow> string option list \<Rightarrow> scd2_row \<Rightarrow> bool" where
  "key_match key_fields key_values r =
     list_all (\<lambda>(k, v). sql_eq (cell r k) v) (zip key_fields key_values)"

definition current_rows :: "scd2_table \<Rightarrow> string list \<Rightarrow> string option list \<Rightarrow> scd2_row list" where
  \<comment> \<open>the rows of \<^verbatim>\<open>WHERE {placeholders} AND is_current=1\<close>\<close>
  "current_rows t key_fields key_values =
     filter (\<lambda>r. key_match key_fields key_values r \<and> is_current r = 1) (trows t)"

definition select_current :: "scd2_table \<Rightarrow> string list \<Rightarrow> string option list \<Rightarrow> scd2_row option" where
  \<comment> \<open>\<^verbatim>\<open>ORDER BY id DESC LIMIT 1\<close>, then \<^verbatim>\<open>fetchone()\<close>\<close>
  "select_current t key_fields key_values =
     (case current_rows t key_fields key_values of
        [] \<Rightarrow> None
      | r # rs \<Rightarrow> Some (fold (\<lambda>a b. if rid b < rid a then a else b) rs r))"

definition close_row :: "string \<Rightarrow> nat \<Rightarrow> scd2_row \<Rightarrow> scd2_row" where
  "close_row now i r = (if rid r = i then r\<lparr>valid_to := now, is_current := 0\<rparr> else r)"

definition update_close :: "scd2_table \<Rightarrow> string \<Rightarrow> nat \<Rightarrow> scd2_table" where
  \<comment> \<open>\<^verbatim>\<open>UPDATE {table} SET valid_to=?, is_current=0 WHERE id=?\<close>\<close>
  "update_close t now i = t\<lparr>trows := map (close_row now i) (trows t)\<rparr>"

definition new_row :: "string \<Rightarrow> scd2_table \<Rightarrow> string list \<Rightarrow> pyrecord \<Rightarrow> string \<Rightarrow> scd2_row" where
  \<comment> \<open>the row of \<^verbatim>\<open>VALUES (..., now, sentinel, 1, row_hash)\<close> with
      \<^verbatim>\<open>values = [row.get(col) for col in columns]\<close>; a column not listed is NULL\<close>
  "new_row now t columns row h =
     \<lparr> rid = next_id (tseq t) (map rid (trows t)),
       cells = map (\<lambda>c. (c, if c \<in> set columns then py_get row c else None)) (tcolumns t),
       valid_from = now, valid_to = sentinel, is_current = 1, row_hash = h \<rparr>"

definition insert_row ::
  "(string \<Rightarrow> bool) \<Rightarrow> string \<Rightarrow> string \<Rightarrow> scd2_table \<Rightarrow> string list \<Rightarrow> pyrecord \<Rightarrow> string
     \<Rightarrow> error + scd2_table" where
  \<comment> \<open>\<^verbatim>\<open>INSERT INTO {table} (...) VALUES (...)\<close>: a column the table lacks is refused when
      the statement is prepared, a NULL in a \<^verbatim>\<open>NOT NULL\<close> column when it runs\<close>
  "insert_row ok now table t columns row h =
     (if \<not> ok (insert_sql table columns) \<or> \<not> list_all (\<lambda>c. c \<in> set (tcolumns t)) columns
      then Inl OperationalError
      else
        (let new = new_row now t columns row h
         in if list_ex (\<lambda>c. cell new c = None) (tnotnull t) then Inl IntegrityError
            else Inr (t\<lparr>trows := trows t @ [new], tseq := rid new\<rparr>)))"

definition upsert_row ::
  "(string \<Rightarrow> bool) \<Rightarrow> (string \<Rightarrow> string) \<Rightarrow> string \<Rightarrow> string \<Rightarrow> string list \<Rightarrow> string list
     \<Rightarrow> scd2_table \<Rightarrow> pyrecord \<Rightarrow> error + (scd2_table \<times> nat)" where
  \<comment> \<open>one pass of the loop body; the number is what it adds to \<^verbatim>\<open>inserted\<close>\<close>
  "upsert_row ok H now table key_fields attribute_fields t row =
     (let h = compute_hash H row attribute_fields
      in case key_values_of row key_fields of
           Inl e \<Rightarrow> Inl e
         | Inr key_values \<Rightarrow>
             if \<not> ok (select_current_sql table key_fields)
                \<or> \<not> list_all (\<lambda>k. k \<in> set (tcolumns t)) key_fields
             then Inl OperationalError
             else
               (case select_current t key_fields key_values of
                  None \<Rightarrow>
                    (case insert_row ok now table t (key_fields @ attribute_fields) row h of
                       Inl e \<Rightarrow> Inl e
                     | Inr t2 \<Rightarrow> Inr (t2, 1))
                | Some current \<Rightarrow>
                    if row_hash current = h then Inr (t, 0)
                    else if \<not> ok (update_close_sql table) then Inl OperationalError
                    else
                      (case insert_row ok now table (update_close t now (rid current))
                              (key_fields @ attribute_fields) row h of
                         Inl e \<Rightarrow> Inl e
                       | Inr t2 \<Rightarrow> Inr (t2, 1))))"

fun upsert_rows ::
  "(string \<Rightarrow> bool) \<Rightarrow> (string \<Rightarrow> string) \<Rightarrow> string \<Rightarrow> string \<Rightarrow> string list \<Rightarrow> string list
     \<Rightarrow> scd2_table \<Rightarrow> nat \<Rightarrow> pyrecord list \<Rightarrow> error + (scd2_table \<times> nat)" where
  \<comment> \<open>\<^verbatim>\<open>for row in rows\<close>, stopping at the first exception\<close>
  "upsert_rows ok H now table key_fields attribute_fields t inserted [] = Inr (t, inserted)"
| "upsert_rows ok H now table key_fields attribute_fields t inserted (row # rows) =
     (case upsert_row ok H now table key_fields attribute_fields t row of
        Inl e \<Rightarrow> Inl e
      | Inr (t2, k) \<Rightarrow>
          upsert_rows ok H now table key_fields attribute_fields t2 (inserted + k) rows)"

definition resolve_attribute_fields ::
  "pyrecord list \<Rightarrow> string list \<Rightarrow> string list option \<Rightarrow> string list" where
  \<comment> \<open>\<^verbatim>\<open>list(attribute_fields or [])\<close>, then the fields of \<^verbatim>\<open>rows[0]\<close> when that is
      empty; only reached with a first record\<close>
  "resolve_attribute_fields rows key_fields attribute_fields =
     (let given = (case attribute_fields of None \<Rightarrow> [] | Some fs \<Rightarrow> fs)
      in if given \<noteq> [] then given
         else (case rows of
                 [] \<Rightarrow> []
               | r # _ \<Rightarrow> filter (\<lambda>f. f \<notin> set key_fields) (py_keys r)))"

definition lookup_entity :: "db \<Rightarrow> string \<Rightarrow> scd2_table option" where
  \<comment> \<open>the table the loop's statements name; the audit table has no column
      \<^verbatim>\<open>is_current\<close>, so the first \<^verbatim>\<open>SELECT\<close> on it raises\<close>
  "lookup_entity d table = (if table = ''ingestion_history'' then None else entity d table)"

definition upsert_scd2 ::
  "(string \<Rightarrow> bool) \<Rightarrow> (string \<Rightarrow> string) \<Rightarrow> string \<Rightarrow> db \<Rightarrow> string \<Rightarrow> pyrecord list
     \<Rightarrow> string list \<Rightarrow> string list option \<Rightarrow> (error + nat) \<times> db" where
  \<comment> \<open>The loop runs in one transaction of its own: an exception inside it rolls the
      rows back to what they were after \<^verbatim>\<open>ensure_scd2_table\<close>, whose statements are
      already committed.\<close>
  "upsert_scd2 ok H now d table records key_fields attribute_fields =
     (if records = [] then (Inr 0, d)
      else
        (let attrs = resolve_attribute_fields records key_fields attribute_fields
         in case ensure_scd2_table ok d table key_fields attrs of
              (Some e, d1) \<Rightarrow> (Inl e, d1)
            | (None, d1) \<Rightarrow>
                (case lookup_entity d1 table of
                   None \<Rightarrow>
                     (case key_values_of (hd records) key_fields of
                        Inl e \<Rightarrow> (Inl e, d1)
                      | Inr _ \<Rightarrow> (Inl OperationalError, d1))
                 | Some t \<Rightarrow>
                     (case upsert_rows ok H now table key_fields attrs t 0 records of
                        Inl e \<Rightarrow> (Inl e, d1)
                      | Inr (t2, inserted) \<Rightarrow>
                          (Inr inserted, d1\<lparr>entity := (entity d1)(table \<mapsto> t2)\<rparr>)))))"

subsection \<open>The single-current invariant\<close>

definition single_current :: "db \<Rightarrow> string \<Rightarrow> string list \<Rightarrow> string option list \<Rightarrow> bool" where
  \<comment> \<open>at most one row of the table is current for the key tuple (a table that does
      not exist has no rows)\<close>
  "single_current d tn key_fields key_values =
     (case entity d tn of
        None \<Rightarrow> True
      | Some t \<Rightarrow> length (current_rows t key_fields key_values) \<le> 1)"

subsection \<open>What a close leaves alone\<close>

definition frame :: "scd2_row \<Rightarrow> nat \<times> (string \<times> string option) list \<times> string \<times> string" where
  \<comment> \<open>every column of a row but \<^verbatim>\<open>valid_to\<close> and \<^verbatim>\<open>is_current\<close>\<close>
  "frame r = (rid r, cells r, valid_from r, row_hash r)"

subsection \<open>Batches with a record that lacks a key field\<close>


subsection \<open>Most recent first\<close>


subsection \<open>Repeating a batch\<close>






subsection \<open>Concrete stores and batches\<close>

text \<open>
  A store as \<^verbatim>\<open>__init__\<close> leaves it, an engine that accepts every statement it is
  given, and a stand-in for the digest (the identity, which is injective), for the
  evaluations at concrete inputs below.
\<close>

definition db0 :: db where
  "db0 = \<lparr> entity = Map.empty, history = [], hseq = 0, indexes = [] \<rparr>"

definition accept_all :: "string \<Rightarrow> bool" where
  "accept_all s = True"

definition plain_digest :: "string \<Rightarrow> string" where
  "plain_digest s = s"

definition acct :: "string \<Rightarrow> string \<Rightarrow> pyrecord" where
  "acct a b = [(''account_id'', Some a), (''balance'', Some b)]"

text \<open>
  The accounts of the specification's scenario: the table after the first upsert of
  account A1 with balance 100, and after the upsert of balance 200 a day later (the
  hashes are those of \<open>plain_digest\<close>).
\<close>

definition jan1 :: string where "jan1 = ''2024-01-01T00:00:00+00:00''"
definition jan2 :: string where "jan2 = ''2024-01-02T00:00:00+00:00''"







text \<open>The audit log after two \<^verbatim>\<open>log_history\<close> calls on the empty store.\<close>

definition logged :: "nat \<Rightarrow> string \<Rightarrow> history_event" where
  "logged i ts =
     \<lparr> hid = i, job_name = ''fetch_transactions'', event_type = ''start'', status = ''running'',
       started_at = ts, ended_at = None, duration_ms = None, row_count = None, details = None \<rparr>"

definition db_logged :: db where
  "db_logged = db0\<lparr>history := [logged 1 jan1, logged 2 jan2], hseq := 2\<rparr>"



section \<open>Properties\<close>

subsection \<open>Change detection\<close>

lemma fold_append_concat:
  "fold (\<lambda>x buf. buf @ g x) xs acc = acc @ concat (map g xs)"
  by (induction xs arbitrary: acc) simp_all

text \<open>
  C5. The row hash is the digest of the attribute values in the declared order, with a
  missing field and \<^verbatim>\<open>None\<close> read as the empty text; two records that agree on
  the attribute fields have the same hash, whatever their other fields (the key fields
  among them) hold.
\<close>

theorem compute_hash_attributes_only:
  "compute_hash H r fs =
     H (concat (map (\<lambda>f. case py_get r f of None \<Rightarrow> [] | Some v \<Rightarrow> v) fs))
   \<and> ((\<forall>f \<in> set fs. py_get r1 f = py_get r2 f)
        \<longrightarrow> compute_hash H r1 fs = compute_hash H r2 fs)"
proof -
  have eq: "\<And>r. compute_hash H r fs =
      H (concat (map (\<lambda>f. case py_get r f of None \<Rightarrow> [] | Some v \<Rightarrow> v) fs))"
    by (simp add: compute_hash_def fold_append_concat)
  have "compute_hash H r1 fs = compute_hash H r2 fs"
    if "\<forall>f \<in> set fs. py_get r1 f = py_get r2 f"
  proof -
    from that have "map (\<lambda>f. case py_get r1 f of None \<Rightarrow> [] | Some v \<Rightarrow> v) fs
        = map (\<lambda>f. case py_get r2 f of None \<Rightarrow> [] | Some v \<Rightarrow> v) fs"
      by simp
    then show ?thesis by (simp only: eq)
  qed
  with eq show ?thesis by blast
qed

theorem compute_hash_attributes_only_witness:
  "py_get (acct ''A1'' ''100'') ''balance'' = py_get (acct ''B2'' ''100'') ''balance''
   \<and> py_get (acct ''A1'' ''100'') ''account_id'' \<noteq> py_get (acct ''B2'' ''100'') ''account_id''
   \<and> compute_hash plain_digest (acct ''A1'' ''100'') [''balance'']
       = compute_hash plain_digest (acct ''B2'' ''100'') [''balance'']"
  using compute_hash_attributes_only
    [of plain_digest "acct ''A1'' ''100''" "[''balance'']" "acct ''A1'' ''100''" "acct ''B2'' ''100''"]
  by (simp add: acct_def py_get_def compute_hash_def)

subsection \<open>The upsert: empty batch and attribute inference\<close>

text \<open>
  C8. With an empty batch \<^verbatim>\<open>upsert_scd2\<close> returns 0 and the store is what it was: no
  table is created, none is changed.
\<close>

theorem upsert_scd2_empty_batch:
  "upsert_scd2 ok H now d table [] key_fields attribute_fields = (Inr 0, d)"
  by (simp add: upsert_scd2_def)

theorem upsert_scd2_empty_batch_witness:
  "upsert_scd2 accept_all plain_digest ''2024-01-01T00:00:00+00:00'' db0 ''accounts'' []
     [''account_id''] None = (Inr 0, db0)
   \<and> entity db0 ''accounts'' = None"
  using upsert_scd2_empty_batch
    [of accept_all plain_digest "''2024-01-01T00:00:00+00:00''" db0 "''accounts''"
        "[''account_id'']" None]
  by (simp add: db0_def)

text \<open>
  C10. An explicit empty attribute list is the same call as no attribute list: in both
  the attribute fields are the fields of the first record that are not key fields.
\<close>

theorem upsert_scd2_empty_attribute_list:
  "upsert_scd2 ok H now d table records key_fields (Some []) =
     upsert_scd2 ok H now d table records key_fields None
   \<and> resolve_attribute_fields (r # rs) key_fields (Some []) =
       filter (\<lambda>f. f \<notin> set key_fields) (py_keys r)
   \<and> resolve_attribute_fields (r # rs) key_fields None =
       filter (\<lambda>f. f \<notin> set key_fields) (py_keys r)"
  by (simp add: upsert_scd2_def resolve_attribute_fields_def)

theorem upsert_scd2_empty_attribute_list_witness:
  "upsert_scd2 accept_all plain_digest ''2024-01-01T00:00:00+00:00'' db0 ''accounts''
     [acct ''A1'' ''100''] [''account_id''] (Some []) =
   upsert_scd2 accept_all plain_digest ''2024-01-01T00:00:00+00:00'' db0 ''accounts''
     [acct ''A1'' ''100''] [''account_id''] None
   \<and> resolve_attribute_fields [acct ''A1'' ''100''] [''account_id''] (Some []) = [''balance'']"
  using upsert_scd2_empty_attribute_list
    [of accept_all plain_digest "''2024-01-01T00:00:00+00:00''" db0 "''accounts''"
        "[acct ''A1'' ''100'']" "[''account_id'']" "acct ''A1'' ''100''" "[]"]
  by (simp add: acct_def py_keys_def)

subsection \<open>The loop body\<close>

lemma key_values_of_Inr:
  "key_values_of row ks = Inr kvs \<Longrightarrow> kvs = map (py_get row) ks"
  by (induction ks arbitrary: kvs)
     (auto simp: py_index_def py_get_def split: option.splits sum.splits)


lemma map_of_tabulate:
  "c \<in> set cs \<Longrightarrow> map_of (map (\<lambda>c. (c, f c)) cs) c = Some (f c)"
  by (induction cs) auto

lemma cell_new_row:
  "c \<in> set (tcolumns t) \<Longrightarrow> c \<in> set cols \<Longrightarrow> cell (new_row now t cols row h) c = py_get row c"
  by (simp add: cell_def new_row_def map_of_tabulate)

lemma key_match_Cons:
  "key_match (k # ks) (v # vs) r = (sql_eq (cell r k) v \<and> key_match ks vs r)"
  by (simp add: key_match_def)

lemma key_match_close_row [simp]:
  "key_match ks kv (close_row now i r) = key_match ks kv r"
  by (simp add: key_match_def close_row_def cell_def)

lemma current_rows_update_close:
  "current_rows (update_close t now i) ks kv = filter (\<lambda>r. rid r \<noteq> i) (current_rows t ks kv)"
proof -
  have "filter (\<lambda>r. key_match ks kv r \<and> is_current r = 1) (map (close_row now i) rs)
      = filter (\<lambda>r. rid r \<noteq> i) (filter (\<lambda>r. key_match ks kv r \<and> is_current r = 1) rs)" for rs
    by (induction rs) (auto simp: close_row_def key_match_def cell_def)
  then show ?thesis by (simp add: current_rows_def update_close_def)
qed

lemma fold_pick_in:
  "fold (\<lambda>a b. if rid b < rid a then a else b) rs r \<in> set (r # rs)"
  by (induction rs arbitrary: r) auto

lemma select_current_None:
  "select_current t ks kv = None \<longleftrightarrow> current_rows t ks kv = []"
  by (simp add: select_current_def split: list.splits)

lemma select_current_Some_in:
  "select_current t ks kv = Some c \<Longrightarrow> c \<in> set (current_rows t ks kv)"
  using fold_pick_in by (auto simp: select_current_def split: list.splits)

lemma insert_row_Inr:
  assumes "insert_row ok now table t cols row h = Inr t2"
  shows "t2 = t\<lparr>trows := trows t @ [new_row now t cols row h], tseq := rid (new_row now t cols row h)\<rparr>"
    and "set cols \<subseteq> set (tcolumns t)"
    and "\<forall>c \<in> set (tnotnull t). cell (new_row now t cols row h) c \<noteq> None"
  using assms
  by (auto simp: insert_row_def Let_def list_all_iff list_ex_iff split: if_splits)

lemma current_rows_append:
  "current_rows (t\<lparr>trows := trows t @ [r], tseq := s\<rparr>) ks kv =
     current_rows t ks kv @ (if key_match ks kv r \<and> is_current r = 1 then [r] else [])"
  by (simp add: current_rows_def)

lemma key_match_new_row:
  assumes "length kv = length ks" "set ks \<subseteq> set (tcolumns t)" "set ks \<subseteq> set cols"
    and "key_match ks kv (new_row now t cols row h)"
  shows "kv = map (py_get row) ks"
  using assms
proof (induction ks arbitrary: kv)
  case Nil
  then show ?case by simp
next
  case (Cons k ks)
  then obtain v vs where kv: "kv = v # vs" by (metis length_Suc_conv)
  with Cons show ?case by (auto simp: key_match_Cons sql_eq_def cell_new_row)
qed

lemma upsert_row_cases:
  assumes "upsert_row ok H now table ks attrs t row = Inr (t2, n)"
  obtains
    (fresh) "select_current t ks (map (py_get row) ks) = None"
            "insert_row ok now table t (ks @ attrs) row (compute_hash H row attrs) = Inr t2" "n = 1"
  | (same) c where "select_current t ks (map (py_get row) ks) = Some c"
            "row_hash c = compute_hash H row attrs" "t2 = t" "n = 0"
  | (changed) c where "select_current t ks (map (py_get row) ks) = Some c"
            "row_hash c \<noteq> compute_hash H row attrs"
            "insert_row ok now table (update_close t now (rid c)) (ks @ attrs) row
               (compute_hash H row attrs) = Inr t2" "n = 1"
proof -
  from assms obtain kvs where kvs: "key_values_of row ks = Inr kvs"
    by (auto simp: upsert_row_def Let_def split: sum.splits)
  then have eq: "kvs = map (py_get row) ks" by (rule key_values_of_Inr)
  show thesis
  proof (cases "select_current t ks kvs")
    case None
    with assms kvs eq fresh show ?thesis
      by (auto simp: upsert_row_def Let_def split: sum.splits if_splits)
  next
    case (Some c)
    with assms kvs eq same [of c] changed [of c] show ?thesis
      by (auto simp: upsert_row_def Let_def split: sum.splits if_splits)
  qed
qed

lemma upsert_row_single_current:
  assumes len: "length kv = length ks"
    and step: "upsert_row ok H now table ks attrs t row = Inr (t2, n)"
    and inv: "length (current_rows t ks kv) \<le> 1"
  shows "length (current_rows t2 ks kv) \<le> 1"
  using step
proof (cases rule: upsert_row_cases)
  case fresh
  note ins = insert_row_Inr [OF fresh(2)]
  from ins(2) have sub: "set ks \<subseteq> set (tcolumns t)" "set ks \<subseteq> set (ks @ attrs)" by auto
  show ?thesis
  proof (cases "key_match ks kv (new_row now t (ks @ attrs) row (compute_hash H row attrs))")
    case True
    with key_match_new_row [OF len sub] have "kv = map (py_get row) ks" by blast
    with fresh(1) have "current_rows t ks kv = []" by (simp add: select_current_None)
    then show ?thesis by (simp add: ins(1) current_rows_append)
  next
    case False
    with inv show ?thesis by (simp add: ins(1) current_rows_append)
  qed
next
  case (same c)
  with inv show ?thesis by simp
next
  case (changed c)
  let ?u = "update_close t now (rid c)"
  note ins = insert_row_Inr [OF changed(3)]
  have cols: "tcolumns ?u = tcolumns t" by (simp add: update_close_def)
  from ins(2) cols have sub: "set ks \<subseteq> set (tcolumns ?u)" "set ks \<subseteq> set (ks @ attrs)" by auto
  have le: "length (current_rows ?u ks kv) \<le> length (current_rows t ks kv)"
    by (simp add: current_rows_update_close)
  show ?thesis
  proof (cases "key_match ks kv (new_row now ?u (ks @ attrs) row (compute_hash H row attrs))")
    case True
    with key_match_new_row [OF len sub] have kv: "kv = map (py_get row) ks" by blast
    from changed(1) kv have "c \<in> set (current_rows t ks kv)"
      by (simp add: select_current_Some_in)
    with inv have "current_rows t ks kv = [c]"
      by (cases "current_rows t ks kv") auto
    then have "current_rows ?u ks kv = []" by (simp add: current_rows_update_close)
    then show ?thesis by (simp add: ins(1) current_rows_append)
  next
    case False
    with inv le show ?thesis by (simp add: ins(1) current_rows_append)
  qed
qed

lemma upsert_rows_single_current:
  assumes "length kv = length ks"
    and "upsert_rows ok H now table ks attrs t n rows = Inr (t2, m)"
    and "length (current_rows t ks kv) \<le> 1"
  shows "length (current_rows t2 ks kv) \<le> 1"
  using assms
proof (induction rows arbitrary: t n)
  case Nil
  then show ?case by simp
next
  case (Cons row rows)
  from Cons.prems(2) obtain t1 k where
    step: "upsert_row ok H now table ks attrs t row = Inr (t1, k)"
    and rest: "upsert_rows ok H now table ks attrs t1 (n + k) rows = Inr (t2, m)"
    by (auto split: sum.splits)
  from upsert_row_single_current [OF Cons.prems(1) step Cons.prems(3)]
  show ?case using Cons.IH [OF Cons.prems(1) rest] by simp
qed

subsection \<open>Schema creation and the shape of a call\<close>

lemma exec_create_table_effect:
  assumes "exec_create_table ok d table ks attrs = (e, d1)"
  shows "history d1 = history d \<and> hseq d1 = hseq d \<and> indexes d1 = indexes d
       \<and> (d1 = d \<or> (e = None \<and> entity d table = None \<and> table \<noteq> ''ingestion_history''
                     \<and> d1 = d\<lparr>entity := (entity d)(table \<mapsto> new_table ks attrs)\<rparr>))"
  using assms by (auto simp: exec_create_table_def split: if_splits)

lemma exec_create_key_index_effect:
  assumes "exec_create_key_index ok d table ks = (e, d1)"
  shows "history d1 = history d \<and> hseq d1 = hseq d \<and> entity d1 = entity d"
  using assms by (auto simp: exec_create_key_index_def Let_def split: if_splits option.splits)

lemma exec_create_current_index_effect:
  assumes "exec_create_current_index ok d table = (e, d1)"
  shows "history d1 = history d \<and> hseq d1 = hseq d \<and> entity d1 = entity d"
  using assms by (auto simp: exec_create_current_index_def Let_def split: if_splits)

lemma ensure_scd2_table_effect:
  assumes "ensure_scd2_table ok d table ks attrs = (e, d1)"
  shows "history d1 = history d \<and> hseq d1 = hseq d
       \<and> (entity d1 = entity d
            \<or> (entity d table = None \<and> table \<noteq> ''ingestion_history''
                \<and> entity d1 = (entity d)(table \<mapsto> new_table ks attrs)))"
proof -
  obtain e0 d0 where c: "exec_create_table ok d table ks attrs = (e0, d0)" by force
  note t = exec_create_table_effect [OF c]
  show ?thesis
  proof (cases e0)
    case (Some x)
    with c assms have "d1 = d0" by (simp add: ensure_scd2_table_def)
    with t show ?thesis by auto
  next
    case None
    obtain e2 d2 where k: "exec_create_key_index ok d0 table ks = (e2, d2)" by force
    note ki = exec_create_key_index_effect [OF k]
    show ?thesis
    proof (cases e2)
      case (Some x)
      with c k None assms have "d1 = d2" by (simp add: ensure_scd2_table_def)
      with t ki show ?thesis by auto
    next
      case n2: None
      with c k None assms have "exec_create_current_index ok d2 table = (e, d1)"
        by (simp add: ensure_scd2_table_def)
      from exec_create_current_index_effect [OF this] t ki show ?thesis by auto
    qed
  qed
qed

lemma upsert_scd2_cases:
  obtains
    (empty) "records = []" "upsert_scd2 ok H now d table records ks af = (Inr 0, d)"
  | (failed) e x d1 where "records \<noteq> []"
      "ensure_scd2_table ok d table ks (resolve_attribute_fields records ks af) = (x, d1)"
      "upsert_scd2 ok H now d table records ks af = (Inl e, d1)"
  | (applied) d1 t t2 n where "records \<noteq> []"
      "ensure_scd2_table ok d table ks (resolve_attribute_fields records ks af) = (None, d1)"
      "lookup_entity d1 table = Some t"
      "upsert_rows ok H now table ks (resolve_attribute_fields records ks af) t 0 records
         = Inr (t2, n)"
      "upsert_scd2 ok H now d table records ks af
         = (Inr n, d1\<lparr>entity := (entity d1)(table \<mapsto> t2)\<rparr>)"
proof (cases "records = []")
  case True
  then show thesis using empty by (simp add: upsert_scd2_def)
next
  case ne: False
  let ?attrs = "resolve_attribute_fields records ks af"
  obtain x d1 where en: "ensure_scd2_table ok d table ks ?attrs = (x, d1)" by force
  show thesis
  proof (cases x)
    case (Some e)
    with en ne failed [of x d1 e] show thesis by (simp add: upsert_scd2_def Let_def)
  next
    case None
    show thesis
    proof (cases "lookup_entity d1 table")
      case lk: None
      obtain e where "(case key_values_of (hd records) ks of Inl e \<Rightarrow> (Inl e, d1)
           | Inr x \<Rightarrow> (Inl OperationalError, d1)) = (Inl e :: error + nat, d1)"
        by (cases "key_values_of (hd records) ks") auto
      with lk en ne None failed [of x d1 e] show thesis
        by (simp add: upsert_scd2_def Let_def)
    next
      case (Some t)
      show thesis
      proof (cases "upsert_rows ok H now table ks ?attrs t 0 records")
        case (Inl e)
        with en ne None Some failed [of x d1 e] show thesis
          by (simp add: upsert_scd2_def Let_def)
      next
        case (Inr p)
        then obtain t2 n where "p = (t2, n)" by force
        with Inr en ne None Some applied [of d1 t t2 n] show thesis
          by (simp add: upsert_scd2_def Let_def)
      qed
    qed
  qed
qed

lemma current_rows_new_table [simp]: "current_rows (new_table ks attrs) ks' kv = []"
  by (simp add: current_rows_def new_table_def)

lemma ensure_single_current:
  assumes "ensure_scd2_table ok d table ks attrs = (e, d1)" "single_current d tn ks' kv"
  shows "single_current d1 tn ks' kv"
  using ensure_scd2_table_effect [OF assms(1)] assms(2)
  by (auto simp: single_current_def split: option.splits if_splits)

subsection \<open>The single-current invariant\<close>

text \<open>
  C1. For every table of the store and every tuple of values for the key fields of the
  call: if at most one row of the table is current for that tuple before
  \<^verbatim>\<open>upsert_scd2\<close>, at most one is after it, whatever the batch and whether the call
  returns or raises. Rows are matched as the \<^verbatim>\<open>WHERE\<close> clause of the source matches
  them.
\<close>

theorem upsert_scd2_single_current:
  assumes len: "length kv = length key_fields"
    and inv: "single_current d tn key_fields kv"
  shows "single_current (snd (upsert_scd2 ok H now d table records key_fields af)) tn key_fields kv"
proof (cases rule: upsert_scd2_cases [of records ok H now d table key_fields af])
  case empty
  with inv show ?thesis by simp
next
  case (failed e x d1)
  with ensure_single_current [OF failed(2) inv] show ?thesis by simp
next
  case (applied d1 t t2 n)
  note inv1 = ensure_single_current [OF applied(2) inv]
  show ?thesis
  proof (cases "tn = table")
    case True
    from applied(3) have "entity d1 table = Some t"
      by (simp add: lookup_entity_def split: if_splits)
    with inv1 True have "length (current_rows t key_fields kv) \<le> 1"
      by (simp add: single_current_def)
    from upsert_rows_single_current [OF len applied(4) this] True applied(5)
    show ?thesis by (simp add: single_current_def)
  next
    case False
    with inv1 applied(5) show ?thesis by (simp add: single_current_def)
  qed
qed

theorem upsert_scd2_single_current_witness:
  "length [Some ''A1''] = length [''account_id'']
   \<and> single_current db0 ''accounts'' [''account_id''] [Some ''A1'']
   \<and> single_current
        (snd (upsert_scd2 accept_all plain_digest ''2024-01-01T00:00:00+00:00'' db0 ''accounts''
                [acct ''A1'' ''100'', acct ''A1'' ''200''] [''account_id''] None))
        ''accounts'' [''account_id''] [Some ''A1'']"
  using upsert_scd2_single_current
    [of "[Some ''A1'']" "[''account_id'']" db0 "''accounts''" accept_all plain_digest
        "''2024-01-01T00:00:00+00:00''" "''accounts''"
        "[acct ''A1'' ''100'', acct ''A1'' ''200'']" None]
  by (simp add: single_current_def db0_def)

subsection \<open>Superseding a version\<close>





subsection \<open>No row is deleted\<close>

lemma frame_close_row [simp]: "frame (close_row now i r) = frame r"
  by (simp add: frame_def close_row_def)

lemma map_frame_update_close [simp]:
  "map frame (trows (update_close t now i)) = map frame (trows t)"
  by (simp add: update_close_def)








subsection \<open>A record without a key field\<close>






subsection \<open>Names in the schema statements\<close>


















subsection \<open>Reading the audit log\<close>

lemma set_insert_desc [simp]: "set (insert_desc e xs) = insert e (set xs)"
  by (induction xs) auto

lemma length_insert_desc [simp]: "length (insert_desc e xs) = Suc (length xs)"
  by (induction xs) auto


lemma set_order_by_id_desc [simp]: "set (order_by_id_desc es) = set es"
  by (induction es) (simp_all add: order_by_id_desc_def)

lemma length_order_by_id_desc [simp]: "length (order_by_id_desc es) = length es"
  by (induction es) (simp_all add: order_by_id_desc_def)




lemma hid_logged [simp]: "hid (logged i ts) = i"
  by (simp add: logged_def)


lemma log_history_twice:
  "snd (log_history (id :: string \<Rightarrow> string) jan2
         (snd (log_history (id :: string \<Rightarrow> string) jan1 db0 ''fetch_transactions'' ''start''
                 ''running'' None None None None None))
         ''fetch_transactions'' ''start'' ''running'' None None None None None) = db_logged"
  by (simp add: log_history_def db0_def db_logged_def logged_def next_id_def Let_def)




subsection \<open>Repeating a batch\<close>
















end
